theory Spec2Isabelle
  imports Main
begin

section \<open>Outcomes of an operation\<close>

text \<open>
  The Go code ends an operation in one of three ways: it returns, it calls
  \<^verbatim>\<open>log.Fatalf\<close> (the process prints a message and exits), or it panics
  (a nil pointer is dereferenced, a type assertion fails).  Each \<^verbatim>\<open>log.Fatalf\<close>
  call site of the sources is a constructor of \<open>fatal\<close>; its arguments are the
  values the format string prints.
\<close>

datatype err = ErrUnknownPrivateKeyType | ErrCantFindCertificate | ErrExternal string

datatype panic = NilPointerDereference | TypeAssertionFailed | MultipleRegistrations string

datatype fatal =
    VaultClient err
  | UnableToSaveCertificate string err
  | UnableToMarshalCertResource string err
  | UnableToSaveCertResource string err
  | ErrorLoadingMetaData string err
  | ErrorMarshalingMetaData string err
  | ErrorLoadingAccount string err
  | CouldNotParseAccount string err
  | CouldNotLoadAccount string err
  | CouldNotSaveAccount string err
  | NoKeyFound string string err
  | CouldNotGenerateKey string err
  | CouldNotWriteKey string err
  | CouldNotLoadKey string err
  | CouldNotStartHTTPServer err

datatype 'a outcome = Return 'a | Fatal fatal | Panic panic

section \<open>The backing secret store\<close>

text \<open>
  Values of Go's \<^verbatim>\<open>interface{}\<close> that the stores put into a secret: a byte slice,
  a string, or a nested \<^verbatim>\<open>map[string]interface{}\<close>.  A type assertion
  \<^verbatim>\<open>x.([]byte)\<close> succeeds on \<open>ByteSlice\<close> only, \<^verbatim>\<open>x.(string)\<close> on \<open>Str\<close> only,
  \<^verbatim>\<open>x.(map[string]interface{})\<close> on \<open>MapVal\<close> only; a missing map key yields the nil
  interface, on which every assertion panics.
\<close>

datatype val = ByteSlice string | Str string | MapVal "(string \<times> val) list"

type_synonym secret = "(string \<times> val) list"

text \<open>
  Modelled from the spec: the backing secret store and its client (\<^verbatim>\<open>vaultClient\<close>,
  \<^verbatim>\<open>Client.Get\<close>, \<^verbatim>\<open>Logical().Read\<close>, \<^verbatim>\<open>Logical().Write\<close>) are not among the
  sources.  The spec describes ``a path-addressable key/value interface with
  \<^verbatim>\<open>read(path) -> {data: map}\<close> and \<^verbatim>\<open>write(path, map) -> error\<close> semantics''.
  A store state holds the secrets by path, and says for which calls the store
  answers with an error (connectivity, authentication, permission).  Reading a
  path that holds nothing yields a nil secret and no error: this is the case
  the sources test with \<^verbatim>\<open>resp == nil\<close> in \<^verbatim>\<open>ExistsFile\<close>,
  \<^verbatim>\<open>ExistsAccountFilePath\<close> and \<^verbatim>\<open>GetPrivateKey\<close>.
\<close>

record vault =
  client_err :: "err option"
  read_err :: "string \<Rightarrow> err option"
  write_err :: "string \<Rightarrow> err option"
  secrets :: "string \<Rightarrow> secret option"

definition Logical_Read :: "vault \<Rightarrow> string \<Rightarrow> secret option \<times> err option" where
  "Logical_Read c path =
     (case read_err c path of
        Some e \<Rightarrow> (None, Some e)
      | None \<Rightarrow> (secrets c path, None))"

definition Logical_Write :: "vault \<Rightarrow> string \<Rightarrow> secret \<Rightarrow> vault \<times> err option" where
  "Logical_Write c path d =
     (case write_err c path of
        Some e \<Rightarrow> (c, Some e)
      | None \<Rightarrow> (c\<lparr>secrets := (secrets c)(path \<mapsto> d)\<rparr>, None))"

text \<open>
  The paths of the store, as the sources format them with \<^verbatim>\<open>fmt.Sprintf\<close>:
  \<^verbatim>\<open>"secret/data/fabio/certs/%s"\<close>, \<^verbatim>\<open>"secret/data/fabio/json/%s"\<close>,
  \<^verbatim>\<open>"secret/data/fabio/account/%s"\<close> and \<^verbatim>\<open>"secret/data/fabio/private_key/%s"\<close>.
\<close>

definition certsPath :: "string \<Rightarrow> string" where
  "certsPath domain = ''secret/data/fabio/certs/'' @ domain"

definition jsonPath :: "string \<Rightarrow> string" where
  "jsonPath domain = ''secret/data/fabio/json/'' @ domain"

definition accountPath :: "string \<Rightarrow> string" where
  "accountPath email = ''secret/data/fabio/account/'' @ email"

definition privateKeyPath :: "string \<Rightarrow> string" where
  "privateKeyPath userID = ''secret/data/fabio/private_key/'' @ userID"

section \<open>Certificate store\<close>

text \<open>
  \<^verbatim>\<open>certificate.Resource\<close>: the fields the sources read, and the ACME bookkeeping
  fields (opaque to the store) as one field of any type.  The field \<open>Domain'\<close>
  is the Go field \<^verbatim>\<open>Domain\<close> (the name is taken in HOL).  The JSON encoding of a
  resource is the work of \<^verbatim>\<open>encoding/json\<close> on a type declared outside the
  sources; \<^verbatim>\<open>json.MarshalIndent\<close> and \<^verbatim>\<open>json.Unmarshal\<close> are parameters of the
  operations that call them.
\<close>

record 'm resource =
  Domain' :: string
  PrivateKey :: string
  Certificate :: string
  IssuerCertificate :: string
  Bookkeeping :: 'm

definition SaveResource ::
  "('m resource \<Rightarrow> err + string) \<Rightarrow> vault \<Rightarrow> 'm resource \<Rightarrow> unit outcome \<times> vault" where
  "SaveResource json_MarshalIndent s certRes =
     (let domain = Domain' certRes in
      case client_err s of
        Some e \<Rightarrow> (Fatal (VaultClient e), s)
      | None \<Rightarrow>
         (case Logical_Write s (certsPath domain)
                 [(''cert'', ByteSlice (Certificate certRes)),
                  (''key'', ByteSlice (PrivateKey certRes)),
                  (''issuer'', ByteSlice (IssuerCertificate certRes))] of
            (s1, Some e) \<Rightarrow> (Fatal (UnableToSaveCertificate domain e), s1)
          | (s1, None) \<Rightarrow>
             (case json_MarshalIndent certRes of
                Inl e \<Rightarrow> (Fatal (UnableToMarshalCertResource domain e), s1)
              | Inr jsonBytes \<Rightarrow>
                 (case Logical_Write s1 (jsonPath domain)
                         [(''data'', ByteSlice jsonBytes)] of
                    (s2, Some e) \<Rightarrow> (Fatal (UnableToSaveCertResource domain e), s2)
                  | (s2, None) \<Rightarrow> (Return (), s2)))))"

definition ReadResource ::
  "(string \<Rightarrow> err + 'm resource) \<Rightarrow> vault \<Rightarrow> string \<Rightarrow> 'm resource outcome" where
  "ReadResource json_Unmarshal s domain =
     (case client_err s of
        Some e \<Rightarrow> Fatal (VaultClient e)
      | None \<Rightarrow>
         (case Logical_Read s (jsonPath domain) of
            (resp, Some e) \<Rightarrow> Fatal (ErrorLoadingMetaData domain e)
          | (None, None) \<Rightarrow> Panic NilPointerDereference
          | (Some resp_Data, None) \<Rightarrow>
             (case map_of resp_Data ''data'' of
                Some (ByteSlice b) \<Rightarrow>
                  (case json_Unmarshal b of
                     Inl e \<Rightarrow> Fatal (ErrorMarshalingMetaData domain e)
                   | Inr resource \<Rightarrow> Return resource)
              | _ \<Rightarrow> Panic TypeAssertionFailed)))"

definition ExistsFile :: "vault \<Rightarrow> string \<Rightarrow> string \<Rightarrow> bool outcome" where
  "ExistsFile s domain extension =
     (case client_err s of
        Some e \<Rightarrow> Fatal (VaultClient e)
      | None \<Rightarrow>
         (case Logical_Read s (jsonPath domain) of
            (resp, err) \<Rightarrow>
              if err \<noteq> None \<or> resp = None then Return False else Return True))"

text \<open>\<open>ReadFile\<close>: the certificate or the key of the resource \<open>ReadResource\<close> returns.\<close>

definition ReadFile ::
  "(string \<Rightarrow> err + 'm resource) \<Rightarrow> vault \<Rightarrow> string \<Rightarrow> string \<Rightarrow> (err + string) outcome" where
  "ReadFile json_Unmarshal s domain extension =
     (case ReadResource json_Unmarshal s domain of
        Return res \<Rightarrow>
          if extension = ''.crt'' then Return (Inr (Certificate res))
          else if extension = ''.key'' then Return (Inr (PrivateKey res))
          else Return (Inl ErrCantFindCertificate)
      | Fatal f \<Rightarrow> Fatal f
      | Panic p \<Rightarrow> Panic p)"

text \<open>A store that answers every call, and holds nothing.\<close>

definition empty_vault :: vault where
  "empty_vault =
     \<lparr>client_err = None, read_err = (\<lambda>_. None), write_err = (\<lambda>_. None),
      secrets = (\<lambda>_. None)\<rparr>"

section \<open>Account store\<close>

text \<open>
  \<^verbatim>\<open>Account\<close> and \<^verbatim>\<open>registration.Resource\<close> with the fields the sources read:
  \<^verbatim>\<open>account.Email\<close>, \<^verbatim>\<open>account.Registration\<close> (a pointer, \<open>None\<close> when nil),
  \<^verbatim>\<open>account.Registration.Body.Status\<close> and the unexported \<^verbatim>\<open>account.key\<close>.
  A \<^verbatim>\<open>crypto.PrivateKey\<close> is an interface value: \<open>None\<close> is the nil interface,
  \<open>Some k\<close> a key \<open>k\<close> of the library's key type \<open>'k\<close>.  The field \<open>URI\<close> is
  the authority-assigned identifier of the spec's data model.
\<close>

record acme_Account =
  Status :: string

record registration_Resource =
  Body :: acme_Account
  URI :: string

record 'k account =
  Email :: string
  Registration :: "registration_Resource option"
  key :: "'k option"

record cli_Context =
  GlobalString_server :: string
  App_Version :: string

record AccountsStorage =
  userID :: string
  ctx :: cli_Context

record 'k lego_Config =
  User :: "'k account"
  CADirURL :: string
  UserAgent :: string

record pem_Block =
  Type :: string
  Bytes :: string

text \<open>
  The libraries the account store calls, as parameters: \<^verbatim>\<open>encoding/json\<close> on
  \<^verbatim>\<open>Account\<close>, \<^verbatim>\<open>certcrypto.GeneratePrivateKey\<close> (its second argument is the
  state of the random source, so that two calls need not give the same key),
  \<^verbatim>\<open>certcrypto.PEMBlock\<close> (a pointer to a block, nil for a value it does not
  know), \<^verbatim>\<open>pem.EncodeToMemory\<close>, \<^verbatim>\<open>pem.Decode\<close> (nil when the input holds no
  PEM block), the two \<^verbatim>\<open>x509\<close> parsers the sources call (each returns a key
  and an error, as in Go), \<^verbatim>\<open>lego.NewClient\<close> and
  \<^verbatim>\<open>client.Registration.ResolveAccountByKey\<close>.
\<close>

record 'k libs =
  json_MarshalAccount :: "'k account \<Rightarrow> err + string"
  json_UnmarshalAccount :: "string \<Rightarrow> err + 'k account"
  certcrypto_GeneratePrivateKey :: "string \<Rightarrow> nat \<Rightarrow> err + 'k"
  certcrypto_PEMBlock :: "'k \<Rightarrow> pem_Block option"
  pem_EncodeToMemory :: "pem_Block \<Rightarrow> string"
  pem_Decode :: "string \<Rightarrow> pem_Block option"
  x509_ParsePKCS1PrivateKey :: "string \<Rightarrow> 'k option \<times> err option"
  x509_ParseECPrivateKey :: "string \<Rightarrow> 'k option \<times> err option"
  lego_NewClient :: "'k lego_Config \<Rightarrow> err option"
  ResolveAccountByKey :: "'k lego_Config \<Rightarrow> err + registration_Resource"

text \<open>
  The state the account store works on: the secret store, the state of the
  random source, and the list of the calls of \<open>tryRecoverRegistration\<close> and
  \<open>Save\<close> made so far, each entered when the function is called.
\<close>

datatype 'k call = CallRecover "'k option" | CallSave "'k account"

record 'k world =
  store :: vault
  entropy :: nat
  calls :: "'k call list"


definition Save ::
  "'k libs \<Rightarrow> AccountsStorage \<Rightarrow> 'k world \<Rightarrow> 'k account \<Rightarrow> err option outcome \<times> 'k world" where
  "Save L s w account =
     (let w0 = w\<lparr>calls := calls w @ [CallSave account]\<rparr> in
      case client_err (store w0) of
        Some e \<Rightarrow> (Fatal (VaultClient e), w0)
      | None \<Rightarrow>
         (case json_MarshalAccount L account of
            Inl e \<Rightarrow> (Return (Some e), w0)
          | Inr jsonBytes \<Rightarrow>
             (case Logical_Write (store w0) (accountPath (Email account))
                     [(''data'', MapVal [(''data'', Str jsonBytes)])] of
                (c, err) \<Rightarrow> (Return err, w0\<lparr>store := c\<rparr>))))"

text \<open>
  The configuration \<open>tryRecoverRegistration\<close> builds: \<^verbatim>\<open>lego.NewConfig\<close> of an
  account that holds the key only, then the two assignments.
\<close>

definition recovery_config :: "cli_Context \<Rightarrow> 'k option \<Rightarrow> 'k lego_Config" where
  "recovery_config c privateKey =
     \<lparr>User = \<lparr>Email = [], Registration = None, key = privateKey\<rparr>,
      CADirURL = GlobalString_server c,
      UserAgent = ''lego-cli/'' @ App_Version c\<rparr>"

definition tryRecoverRegistration ::
  "'k libs \<Rightarrow> cli_Context \<Rightarrow> 'k world \<Rightarrow> 'k option
     \<Rightarrow> (registration_Resource option \<times> err option) \<times> 'k world" where
  "tryRecoverRegistration L c w privateKey =
     (let w0 = w\<lparr>calls := calls w @ [CallRecover privateKey]\<rparr>;
          config = recovery_config c privateKey
      in case lego_NewClient L config of
           Some e \<Rightarrow> ((None, Some e), w0)
         | None \<Rightarrow>
            (case ResolveAccountByKey L config of
               Inl e \<Rightarrow> ((None, Some e), w0)
             | Inr reg \<Rightarrow> ((Some reg, None), w0)))"

text \<open>
  The test \<^verbatim>\<open>account.Registration == nil || account.Registration.Body.Status == ""\<close>
  of \<open>LoadAccount\<close>.
\<close>

definition registration_unusable :: "registration_Resource option \<Rightarrow> bool" where
  "registration_unusable r = (case r of None \<Rightarrow> True | Some reg \<Rightarrow> Status (Body reg) = [])"

definition LoadAccount ::
  "'k libs \<Rightarrow> AccountsStorage \<Rightarrow> 'k world \<Rightarrow> 'k option \<Rightarrow> 'k account outcome \<times> 'k world" where
  "LoadAccount L s w privateKey =
     (case client_err (store w) of
        Some e \<Rightarrow> (Fatal (VaultClient e), w)
      | None \<Rightarrow>
         (case Logical_Read (store w) (accountPath (userID s)) of
            (resp, Some e) \<Rightarrow> (Fatal (ErrorLoadingAccount (userID s) e), w)
          | (None, None) \<Rightarrow> (Panic NilPointerDereference, w)
          | (Some resp_Data, None) \<Rightarrow>
             (case map_of resp_Data ''data'' of
                Some (MapVal d) \<Rightarrow>
                  (case map_of d ''data'' of
                     Some (Str js) \<Rightarrow>
                       (case json_UnmarshalAccount L js of
                          Inl e \<Rightarrow> (Fatal (CouldNotParseAccount (userID s) e), w)
                        | Inr decoded \<Rightarrow>
                           (let account = decoded\<lparr>key := privateKey\<rparr> in
                            if registration_unusable (Registration account) then
                              (case tryRecoverRegistration L (ctx s) w privateKey of
                                 ((reg, Some e), w1) \<Rightarrow>
                                   (Fatal (CouldNotLoadAccount (userID s) e), w1)
                               | ((reg, None), w1) \<Rightarrow>
                                   (let account1 = account\<lparr>Registration := reg\<rparr> in
                                    case Save L s w1 account1 of
                                      (Return (Some e), w2) \<Rightarrow>
                                        (Fatal (CouldNotSaveAccount (userID s) e), w2)
                                    | (Return None, w2) \<Rightarrow> (Return account1, w2)
                                    | (Fatal f, w2) \<Rightarrow> (Fatal f, w2)
                                    | (Panic p, w2) \<Rightarrow> (Panic p, w2)))
                            else (Return account, w)))
                   | _ \<Rightarrow> (Panic TypeAssertionFailed, w))
              | _ \<Rightarrow> (Panic TypeAssertionFailed, w))))"

definition loadPrivateKey :: "'k libs \<Rightarrow> string \<Rightarrow> ('k option \<times> err option) outcome" where
  "loadPrivateKey L keyBytes =
     (case pem_Decode L keyBytes of
        None \<Rightarrow> Panic NilPointerDereference
      | Some keyBlock \<Rightarrow>
          if Type keyBlock = ''RSA PRIVATE KEY''
          then Return (x509_ParsePKCS1PrivateKey L (Bytes keyBlock))
          else if Type keyBlock = ''EC PRIVATE KEY''
          then Return (x509_ParseECPrivateKey L (Bytes keyBlock))
          else Return (None, Some ErrUnknownPrivateKeyType))"

text \<open>
  \<open>GetPrivateKey\<close>.  \<^verbatim>\<open>pem.EncodeToMemory\<close> reads the block it is given, so a
  nil block from \<^verbatim>\<open>certcrypto.PEMBlock\<close> is a nil pointer dereference.
\<close>

definition GetPrivateKey ::
  "'k libs \<Rightarrow> AccountsStorage \<Rightarrow> 'k world \<Rightarrow> string \<Rightarrow> 'k option outcome \<times> 'k world" where
  "GetPrivateKey L s w keyType =
     (case client_err (store w) of
        Some e \<Rightarrow> (Fatal (VaultClient e), w)
      | None \<Rightarrow>
         (case Logical_Read (store w) (privateKeyPath (userID s)) of
            (resp, Some e) \<Rightarrow> (Fatal (NoKeyFound (userID s) keyType e), w)
          | (None, None) \<Rightarrow>
             (let w1 = w\<lparr>entropy := Suc (entropy w)\<rparr> in
              case certcrypto_GeneratePrivateKey L keyType (entropy w) of
                Inl e \<Rightarrow> (Fatal (CouldNotGenerateKey (userID s) e), w1)
              | Inr privateKey \<Rightarrow>
                 (case certcrypto_PEMBlock L privateKey of
                    None \<Rightarrow> (Panic NilPointerDereference, w1)
                  | Some pemKey \<Rightarrow>
                     (case Logical_Write (store w1) (privateKeyPath (userID s))
                             [(''data'', MapVal [(''data'', Str (pem_EncodeToMemory L pemKey))])] of
                        (c, Some e) \<Rightarrow>
                          (Fatal (CouldNotWriteKey (userID s) e), w1\<lparr>store := c\<rparr>)
                      | (c, None) \<Rightarrow> (Return (Some privateKey), w1\<lparr>store := c\<rparr>))))
          | (Some resp_Data, None) \<Rightarrow>
             (case map_of resp_Data ''data'' of
                Some (MapVal d) \<Rightarrow>
                  (case map_of d ''data'' of
                     Some (Str keyBytes) \<Rightarrow>
                       (case loadPrivateKey L keyBytes of
                          Return (privateKey, Some e) \<Rightarrow>
                            (Fatal (CouldNotLoadKey (userID s) e), w)
                        | Return (privateKey, None) \<Rightarrow> (Return privateKey, w)
                        | Fatal f \<Rightarrow> (Fatal f, w)
                        | Panic p \<Rightarrow> (Panic p, w))
                   | _ \<Rightarrow> (Panic TypeAssertionFailed, w))
              | _ \<Rightarrow> (Panic TypeAssertionFailed, w))))"

section \<open>Challenge responder\<close>

subsection \<open>Requests, response writers and the request multiplexer\<close>

text \<open>
  The part of \<^verbatim>\<open>net/http\<close> the handlers use, after its documentation.  A response
  writer holds the status line (\<open>None\<close> until the header is written), the header,
  the body written so far, and whether writes to the connection succeed.
  \<^verbatim>\<open>Write\<close> writes the header with status 200 first when no header was written,
  and \<^verbatim>\<open>WriteHeader\<close> has no effect once a header was written.
  \<^verbatim>\<open>http.Error\<close> sets two header fields, calls \<^verbatim>\<open>WriteHeader\<close> and prints the
  message and a newline.
\<close>

record http_Request =
  Host :: string
  Method :: string
  URL_Path :: string

record ResponseWriter =
  rw_status :: "nat option"
  rw_header :: "(string \<times> string) list"
  rw_body :: string
  conn_ok :: bool

definition Header_Add :: "ResponseWriter \<Rightarrow> string \<Rightarrow> string \<Rightarrow> ResponseWriter" where
  "Header_Add w k v = w\<lparr>rw_header := rw_header w @ [(k, v)]\<rparr>"

definition Header_Set :: "ResponseWriter \<Rightarrow> string \<Rightarrow> string \<Rightarrow> ResponseWriter" where
  "Header_Set w k v = w\<lparr>rw_header := filter (\<lambda>kv. fst kv \<noteq> k) (rw_header w) @ [(k, v)]\<rparr>"

definition WriteHeader :: "ResponseWriter \<Rightarrow> nat \<Rightarrow> ResponseWriter" where
  "WriteHeader w code = (if rw_status w = None then w\<lparr>rw_status := Some code\<rparr> else w)"

definition Write :: "ResponseWriter \<Rightarrow> string \<Rightarrow> ResponseWriter \<times> err option" where
  "Write w b =
     (let w1 = WriteHeader w 200 in
      if conn_ok w1 then (w1\<lparr>rw_body := rw_body w1 @ b\<rparr>, None)
      else (w1, Some (ErrExternal ''write failed'')))"

fun err_Error :: "err \<Rightarrow> string" where
  "err_Error ErrUnknownPrivateKeyType = ''unknown private key type''"
| "err_Error ErrCantFindCertificate = ''can't find certificate''"
| "err_Error (ErrExternal m) = m"

definition http_Error :: "ResponseWriter \<Rightarrow> string \<Rightarrow> nat \<Rightarrow> ResponseWriter" where
  "http_Error w msg code =
     (let w1 = Header_Set w ''Content-Type'' ''text/plain; charset=utf-8'';
          w2 = Header_Set w1 ''X-Content-Type-Options'' ''nosniff'';
          w3 = WriteHeader w2 code
      in fst (Write w3 (msg @ [CHR 0x0A])))"

text \<open>\<^verbatim>\<open>strings.HasPrefix(s, prefix)\<close>.\<close>

definition HasPrefix :: "string \<Rightarrow> string \<Rightarrow> bool" where
  "HasPrefix s pre = (length pre \<le> length s \<and> take (length pre) s = pre)"

text \<open>
  The two closures the sources register: the handler of \<^verbatim>\<open>"/"\<close> in
  \<open>NewProviderServer\<close>, and the handler of \<open>serve\<close>, which captures the domain
  and the key authorization.  The log calls have no effect on the response.
\<close>

datatype handler = RootHandler | ChallengeHandler string string

definition rootHandler :: "ResponseWriter \<Rightarrow> http_Request \<Rightarrow> ResponseWriter" where
  "rootHandler w r =
     (let w1 = Header_Add w ''Content-Type'' ''text/plain'' in
      case Write w1 ''OK'' of
        (w2, Some e) \<Rightarrow> http_Error w2 (err_Error e) 500
      | (w2, None) \<Rightarrow> w2)"

definition challengeHandler ::
  "string \<Rightarrow> string \<Rightarrow> ResponseWriter \<Rightarrow> http_Request \<Rightarrow> ResponseWriter" where
  "challengeHandler domain keyAuth w r =
     (if HasPrefix (Host r) domain \<and> Method r = ''GET'' then
        (let w1 = Header_Add w ''Content-Type'' ''text/plain'' in
         case Write w1 keyAuth of
           (w2, Some e) \<Rightarrow> http_Error w2 (err_Error e) 500
         | (w2, None) \<Rightarrow> w2)
      else
        (case Write w ''TEST'' of
           (w2, Some e) \<Rightarrow> http_Error w2 (err_Error e) 500
         | (w2, None) \<Rightarrow> w2))"

fun run_handler :: "handler \<Rightarrow> ResponseWriter \<Rightarrow> http_Request \<Rightarrow> ResponseWriter" where
  "run_handler RootHandler w r = rootHandler w r"
| "run_handler (ChallengeHandler domain keyAuth) w r = challengeHandler domain keyAuth w r"

text \<open>
  \<^verbatim>\<open>http.ServeMux\<close> for patterns that are paths: \<^verbatim>\<open>HandleFunc\<close> panics when the
  pattern is registered already; a request goes to the handler whose pattern
  is its path, else to the handler of the longest pattern ending in a slash
  that is a prefix of its path, else it is answered with status 404.  The
  cleaning of request paths and patterns that name a host are not modelled.
\<close>

type_synonym ServeMux = "(string \<times> handler) list"

definition mux_HandleFunc :: "ServeMux \<Rightarrow> string \<Rightarrow> handler \<Rightarrow> ServeMux outcome" where
  "mux_HandleFunc m pattern h =
     (case map_of m pattern of
        Some h0 \<Rightarrow> Panic (MultipleRegistrations pattern)
      | None \<Rightarrow> Return (m @ [(pattern, h)]))"

definition mux_match :: "ServeMux \<Rightarrow> string \<Rightarrow> handler option" where
  "mux_match m path =
     (case map_of m path of
        Some h \<Rightarrow> Some h
      | None \<Rightarrow>
         (case filter (\<lambda>e. fst e \<noteq> [] \<and> last (fst e) = CHR ''/'' \<and> HasPrefix path (fst e)) m of
            [] \<Rightarrow> None
          | c # cs \<Rightarrow>
              Some (snd (fold (\<lambda>e best. if length (fst best) < length (fst e) then e else best)
                           cs c))))"

definition ServeHTTP :: "ServeMux \<Rightarrow> ResponseWriter \<Rightarrow> http_Request \<Rightarrow> ResponseWriter" where
  "ServeHTTP m w r =
     (case mux_match m (URL_Path r) of
        None \<Rightarrow> http_Error w ''404 page not found'' 404
      | Some h \<Rightarrow> run_handler h w r)"

text \<open>The response writer of a new connection.\<close>

definition new_writer :: "bool \<Rightarrow> ResponseWriter" where
  "new_writer ok = \<lparr>rw_status = None, rw_header = [], rw_body = [], conn_ok = ok\<rparr>"

subsection \<open>The provider server\<close>

text \<open>
  Modelled from the spec: \<^verbatim>\<open>ChallengePath\<close> is a function of the package that is
  not among the sources.  The spec: ``the token path is derived deterministically
  from the token value by a fixed, externally-specified transformation
  (well-known ACME challenge path convention)'', and for the token \<^verbatim>\<open>tok1\<close> the
  path is \<^verbatim>\<open>/.well-known/acme-challenge/tok1\<close>.
\<close>

definition ChallengePath :: "string \<Rightarrow> string" where
  "ChallengePath token = ''/.well-known/acme-challenge/'' @ token"

text \<open>
  \<^verbatim>\<open>net.JoinHostPort\<close>: a host that contains a colon is put in brackets.
  A listener is known by the address \<^verbatim>\<open>net.Listen\<close> was given.
\<close>

definition JoinHostPort :: "string \<Rightarrow> string \<Rightarrow> string" where
  "JoinHostPort host p =
     (if CHR '':'' \<in> set host then ''['' @ host @ '']:'' @ p else host @ '':'' @ p)"

datatype net_Listener = Listener string

record ProviderServer =
  iface :: string
  port :: string
  done_made :: bool
  listener :: "net_Listener option"
  mux :: ServeMux

definition GetAddress :: "ProviderServer \<Rightarrow> string" where
  "GetAddress s = JoinHostPort (iface s) (port s)"

text \<open>
  \<open>Present\<close> returns the server with the port set, and the arguments of the
  goroutine \<^verbatim>\<open>go s.serve(domain, token, keyAuth)\<close> it starts; its error is always nil.
  \<open>serve\<close> is the body of that goroutine.
\<close>

definition Present ::
  "ProviderServer \<Rightarrow> string \<Rightarrow> string \<Rightarrow> string \<Rightarrow> ProviderServer \<times> (string \<times> string \<times> string)" where
  "Present s domain token keyAuth =
     ((if port s = [] then s\<lparr>port := ''80''\<rparr> else s), (domain, token, keyAuth))"

definition serve :: "ProviderServer \<Rightarrow> string \<Rightarrow> string \<Rightarrow> string \<Rightarrow> ProviderServer outcome" where
  "serve s domain token keyAuth =
     (let path = ChallengePath token in
      case mux_HandleFunc (mux s) path (ChallengeHandler domain keyAuth) of
        Return m \<Rightarrow> Return (s\<lparr>mux := m\<rparr>)
      | Fatal f \<Rightarrow> Fatal f
      | Panic p \<Rightarrow> Panic p)"

subsection \<open>The threads of the responder\<close>

text \<open>
  The state of a running responder: the server, whether its listener is open,
  where the goroutine of \<open>NewProviderServer\<close> stands (inside
  \<^verbatim>\<open>httpServer.Serve\<close>; after it, at the send \<^verbatim>\<open>s.done <- true\<close>; finished; or never
  started, for a server made without \<open>NewProviderServer\<close>), where the caller of
  the responder stands (between calls, or inside \<open>CleanUp\<close> at the receive
  \<^verbatim>\<open><-s.done\<close>), the goroutines of \<open>Present\<close> that have not run yet, the number of
  calls of \<open>CleanUp\<close> that have returned, the requests answered so far with
  their responses, and whether a panic has ended the process.
\<close>

datatype serve_pc = NotStarted | Serving | Signalling | Exited

datatype caller_pc = Idle | Waiting

record system =
  srv :: ProviderServer
  listener_open :: bool
  serve_loop :: serve_pc
  caller :: caller_pc
  registering :: "(string \<times> string \<times> string) list"
  cleanups_returned :: nat
  served :: "(http_Request \<times> ResponseWriter) list"
  crashed :: bool

text \<open>
  \<open>NewProviderServer\<close>: the parameter \<open>net_Listen\<close> says for which addresses the
  system refuses to listen.  The goroutine is started inside \<^verbatim>\<open>httpServer.Serve\<close>.
\<close>

definition NewProviderServer ::
  "(string \<Rightarrow> err option) \<Rightarrow> string \<Rightarrow> string \<Rightarrow> system outcome" where
  "NewProviderServer net_Listen iface0 port0 =
     (let s = \<lparr>iface = iface0, port = port0, done_made = False, listener = None, mux = []\<rparr> in
      case net_Listen (GetAddress s) of
        Some e \<Rightarrow> Fatal (CouldNotStartHTTPServer e)
      | None \<Rightarrow>
         (let s1 = s\<lparr>listener := Some (Listener (GetAddress s))\<rparr>;
              s2 = s1\<lparr>done_made := True\<rparr>
          in case mux_HandleFunc (mux s2) ''/'' RootHandler of
               Return m \<Rightarrow>
                 Return \<lparr>srv = s2\<lparr>mux := m\<rparr>, listener_open = True, serve_loop = Serving,
                         caller = Idle, registering = [], cleanups_returned = 0,
                         served = [], crashed = False\<rparr>
             | Fatal f \<Rightarrow> Fatal f
             | Panic p \<Rightarrow> Panic p))"

text \<open>
  \<open>CleanUp\<close> up to its receive: with no listener it returns at once; else it
  closes the listener and waits at \<^verbatim>\<open><-s.done\<close>.
\<close>

definition CleanUp_enter :: "system \<Rightarrow> system" where
  "CleanUp_enter \<sigma> =
     (case listener (srv \<sigma>) of
        None \<Rightarrow> \<sigma>\<lparr>cleanups_returned := Suc (cleanups_returned \<sigma>)\<rparr>
      | Some l \<Rightarrow> \<sigma>\<lparr>listener_open := False, caller := Waiting\<rparr>)"

text \<open>
  The steps of the threads, interleaved.  The caller calls \<open>Present\<close> or
  \<open>CleanUp\<close>; a goroutine of \<open>Present\<close> runs \<open>serve\<close>, and its panic ends the
  process; the serve loop accepts and answers a request while the listener is
  open (one step: the connections inside \<^verbatim>\<open>net/http\<close> are not modelled);
  \<^verbatim>\<open>httpServer.Serve\<close> returns, when the listener is closed or for another
  error; the send on \<^verbatim>\<open>s.done\<close> and the receive in \<open>CleanUp\<close> happen together,
  the channel being unbuffered, after which the goroutine is finished and
  \<open>CleanUp\<close> returns.
\<close>

inductive step :: "system \<Rightarrow> system \<Rightarrow> bool" where
  call_Present:
    "\<not> crashed \<sigma> \<Longrightarrow> caller \<sigma> = Idle \<Longrightarrow> Present (srv \<sigma>) domain token keyAuth = (s', g) \<Longrightarrow>
     step \<sigma> (\<sigma>\<lparr>srv := s', registering := registering \<sigma> @ [g]\<rparr>)"
| run_serve:
    "\<not> crashed \<sigma> \<Longrightarrow> (domain, token, keyAuth) \<in> set (registering \<sigma>) \<Longrightarrow>
     serve (srv \<sigma>) domain token keyAuth = Return s' \<Longrightarrow>
     step \<sigma> (\<sigma>\<lparr>srv := s', registering := remove1 (domain, token, keyAuth) (registering \<sigma>)\<rparr>)"
| run_serve_panic:
    "\<not> crashed \<sigma> \<Longrightarrow> (domain, token, keyAuth) \<in> set (registering \<sigma>) \<Longrightarrow>
     serve (srv \<sigma>) domain token keyAuth = Panic p \<Longrightarrow>
     step \<sigma> (\<sigma>\<lparr>crashed := True\<rparr>)"
| answer_request:
    "\<not> crashed \<sigma> \<Longrightarrow> serve_loop \<sigma> = Serving \<Longrightarrow> listener_open \<sigma> \<Longrightarrow>
     step \<sigma> (\<sigma>\<lparr>served := served \<sigma> @ [(r, ServeHTTP (mux (srv \<sigma>)) (new_writer ok) r)]\<rparr>)"
| Serve_returns:
    "\<not> crashed \<sigma> \<Longrightarrow> serve_loop \<sigma> = Serving \<Longrightarrow>
     step \<sigma> (\<sigma>\<lparr>serve_loop := Signalling\<rparr>)"
| call_CleanUp:
    "\<not> crashed \<sigma> \<Longrightarrow> caller \<sigma> = Idle \<Longrightarrow> step \<sigma> (CleanUp_enter \<sigma>)"
| send_receive_done:
    "\<not> crashed \<sigma> \<Longrightarrow> caller \<sigma> = Waiting \<Longrightarrow> serve_loop \<sigma> = Signalling \<Longrightarrow> done_made (srv \<sigma>) \<Longrightarrow>
     step \<sigma> (\<sigma>\<lparr>caller := Idle, serve_loop := Exited,
                cleanups_returned := Suc (cleanups_returned \<sigma>)\<rparr>)"

inductive reaches :: "system \<Rightarrow> system \<Rightarrow> bool" where
  reaches_refl: "reaches \<sigma> \<sigma>"
| reaches_step: "reaches \<sigma> \<sigma>' \<Longrightarrow> step \<sigma>' \<sigma>'' \<Longrightarrow> reaches \<sigma> \<sigma>''"

section \<open>A small instance of the libraries\<close>

text \<open>
  Concrete libraries, accounts and stores on which the operations can be run:
  keys are strings, a PEM block is written as its type, a bar and its bytes,
  the JSON codec knows the two records of one user, and the authority resolves
  every key to a valid account.
\<close>

definition sample_registration :: registration_Resource where
  "sample_registration = \<lparr>Body = \<lparr>Status = ''valid''\<rparr>, URI = ''https://localhost:14000/acct/1''\<rparr>"

definition sample_libs :: "string libs" where
  "sample_libs =
     \<lparr>json_MarshalAccount =
        (\<lambda>a. Inr (''{email: '' @ Email a @ '', status: '' @
                    (case Registration a of None \<Rightarrow> [] | Some r \<Rightarrow> Status (Body r)) @ ''}'')),
      json_UnmarshalAccount =
        (\<lambda>js. if js = ''{email: hubert@hubert.com, status: }''
               then Inr \<lparr>Email = ''hubert@hubert.com'', Registration = None, key = None\<rparr>
               else if js = ''{email: hubert@hubert.com, status: valid}''
               then Inr \<lparr>Email = ''hubert@hubert.com'', Registration = Some sample_registration,
                         key = None\<rparr>
               else Inl (ErrExternal ''unexpected end of JSON input'')),
      certcrypto_GeneratePrivateKey = (\<lambda>keyType n. Inr (keyType @ replicate n (CHR ''+''))),
      certcrypto_PEMBlock = (\<lambda>k. Some \<lparr>Type = ''RSA PRIVATE KEY'', Bytes = k\<rparr>),
      pem_EncodeToMemory = (\<lambda>b. Type b @ ''|'' @ Bytes b),
      pem_Decode =
        (\<lambda>s. if CHR ''|'' \<in> set s
              then Some \<lparr>Type = takeWhile (\<lambda>c. c \<noteq> CHR ''|'') s,
                         Bytes = tl (dropWhile (\<lambda>c. c \<noteq> CHR ''|'') s)\<rparr>
              else None),
      x509_ParsePKCS1PrivateKey = (\<lambda>b. (Some b, None)),
      x509_ParseECPrivateKey = (\<lambda>b. (None, Some (ErrExternal ''x509: failed to parse EC private key''))),
      lego_NewClient = (\<lambda>c. None),
      ResolveAccountByKey = (\<lambda>c. Inr sample_registration)\<rparr>"

definition sample_storage :: AccountsStorage where
  "sample_storage =
     \<lparr>userID = ''hubert@hubert.com'',
      ctx = \<lparr>GlobalString_server = ''https://localhost:14000/dir'', App_Version = ''2.0''\<rparr>\<rparr>"

definition empty_world :: "string world" where
  "empty_world = \<lparr>store = empty_vault, entropy = 0, calls = []\<rparr>"

text \<open>A world whose store holds the record of the user, without a registration.\<close>

definition orphan_world :: "string world" where
  "orphan_world =
     \<lparr>store = empty_vault
        \<lparr>secrets := (\<lambda>p. if p = accountPath ''hubert@hubert.com''
                          then Some [(''data'',
                                 MapVal [(''data'', Str ''{email: hubert@hubert.com, status: }'')])]
                          else None)\<rparr>,
      entropy = 0, calls = []\<rparr>"

text \<open>
  The same libraries with an authority that resolves every key to an account
  without a status.
\<close>

definition sample_registration_no_status :: registration_Resource where
  "sample_registration_no_status = \<lparr>Body = \<lparr>Status = []\<rparr>, URI = ''https://localhost:14000/acct/1''\<rparr>"

definition sample_libs_no_status :: "string libs" where
  "sample_libs_no_status =
     sample_libs\<lparr>ResolveAccountByKey := (\<lambda>c. Inr sample_registration_no_status)\<rparr>"

text \<open>
  The server \<open>NewProviderServer\<close> makes on \<^verbatim>\<open>127.0.0.1:5002\<close>, and the same
  server after \<open>serve\<close> has registered the token \<^verbatim>\<open>tok1\<close> of a domain.
\<close>

definition sample_server :: ProviderServer where
  "sample_server =
     \<lparr>iface = ''127.0.0.1'', port = ''5002'', done_made = True,
      listener = Some (Listener ''127.0.0.1:5002''), mux = [(''/'', RootHandler)]\<rparr>"


section \<open>Paths of the store\<close>

lemma certsPath_neq_jsonPath: "certsPath d \<noteq> jsonPath d'" "jsonPath d' \<noteq> certsPath d"
  by (simp_all add: certsPath_def jsonPath_def)

lemma jsonPath_inject: "jsonPath d = jsonPath d' \<longleftrightarrow> d = d'"
  by (simp add: jsonPath_def)


section \<open>Certificate store: save, read and exists\<close>

text \<open>
  Saving a resource of another domain leaves the metadata entry of a domain as
  it was: a domain that was never saved has no metadata entry.
\<close>

lemma SaveResource_other_domain:
  assumes "SaveResource jm s R = (r, s')" and "Domain' R \<noteq> D"
  shows "secrets s' (jsonPath D) = secrets s (jsonPath D)"
  using assms
  by (auto simp: SaveResource_def Logical_Write_def Let_def certsPath_neq_jsonPath jsonPath_inject
      split: option.splits sum.splits)



text \<open>
  C3.  A domain that has no metadata entry: \<open>ExistsFile\<close> returns false,
  whether or not the store answers the read.  When the store answers the read,
  \<open>ReadResource\<close> dereferences the nil secret it is given and panics; it ends
  with the fatal message of a failed load only when the read itself fails.
\<close>

theorem C3_never_saved:
  assumes "client_err s = None"
    and "secrets s (jsonPath D) = None"
  shows "ExistsFile s D extension = Return False
       \<and> (read_err s (jsonPath D) = None
            \<longrightarrow> ReadResource json_Unmarshal s D = Panic NilPointerDereference)
       \<and> (\<forall>e. read_err s (jsonPath D) = Some e
            \<longrightarrow> ReadResource json_Unmarshal s D = Fatal (ErrorLoadingMetaData D e))"
  using assms
  by (auto simp: ExistsFile_def ReadResource_def Logical_Read_def split: option.splits)

theorem C3_never_saved_witness:
  "ExistsFile empty_vault ''example.com'' ''.json'' = Return False
   \<and> ReadResource (\<lambda>b. Inl (ErrExternal ''unexpected end of JSON input'')
                     :: err + unit resource) empty_vault ''example.com''
       = Panic NilPointerDereference
   \<and> ReadResource (\<lambda>b. Inl (ErrExternal ''unexpected end of JSON input'')
                     :: err + unit resource)
        (empty_vault\<lparr>read_err := (\<lambda>p. Some (ErrExternal ''connection refused''))\<rparr>)
        ''example.com''
       = Fatal (ErrorLoadingMetaData ''example.com'' (ErrExternal ''connection refused''))"
  using
    C3_never_saved [where s = empty_vault and D = "''example.com''" and extension = "''.json''"
      and json_Unmarshal = "\<lambda>b. Inl (ErrExternal ''unexpected end of JSON input'')
                     :: err + unit resource"]
    C3_never_saved [where s = "empty_vault\<lparr>read_err := (\<lambda>p. Some (ErrExternal ''connection refused''))\<rparr>"
      and D = "''example.com''" and extension = "''.json''"
      and json_Unmarshal = "\<lambda>b. Inl (ErrExternal ''unexpected end of JSON input'')
                     :: err + unit resource"]
  by (simp add: empty_vault_def)

section \<open>Account store: keys\<close>

text \<open>
  C8.  A PEM block whose type is neither \<^verbatim>\<open>RSA PRIVATE KEY\<close> nor
  \<^verbatim>\<open>EC PRIVATE KEY\<close>: \<open>loadPrivateKey\<close> returns a nil key and the error
  \<^verbatim>\<open>unknown private key type\<close>.
\<close>

theorem C8_unknown_key_type:
  assumes "pem_Decode L keyBytes = Some keyBlock"
    and "Type keyBlock \<noteq> ''RSA PRIVATE KEY''"
    and "Type keyBlock \<noteq> ''EC PRIVATE KEY''"
  shows "loadPrivateKey L keyBytes = Return (None, Some ErrUnknownPrivateKeyType)"
  using assms by (simp add: loadPrivateKey_def)

theorem C8_unknown_key_type_witness:
  "loadPrivateKey sample_libs ''CERTIFICATE|MIIB''
     = Return (None, Some ErrUnknownPrivateKeyType)"
  using C8_unknown_key_type
    [where L = sample_libs and keyBytes = "''CERTIFICATE|MIIB''"
       and keyBlock = "\<lparr>Type = ''CERTIFICATE'', Bytes = ''MIIB''\<rparr>"]
  by (simp add: sample_libs_def)

text \<open>
  C9.  An input in which \<^verbatim>\<open>pem.Decode\<close> finds no block: \<open>loadPrivateKey\<close>
  reads the type of the nil block and panics.  Whenever \<open>loadPrivateKey\<close>
  returns, the error \<^verbatim>\<open>unknown private key type\<close> included, the input held a
  block.
\<close>

theorem C9_no_block_panics:
  "(pem_Decode L keyBytes = None \<longrightarrow> loadPrivateKey L keyBytes = Panic NilPointerDereference)
   \<and> (\<forall>r. loadPrivateKey L keyBytes = Return r \<longrightarrow> (\<exists>keyBlock. pem_Decode L keyBytes = Some keyBlock))"
  by (auto simp: loadPrivateKey_def split: option.splits)

theorem C9_no_block_panics_witness:
  "loadPrivateKey sample_libs ''not a PEM block'' = Panic NilPointerDereference
   \<and> (\<exists>keyBlock. pem_Decode sample_libs ''CERTIFICATE|MIIB'' = Some keyBlock)"
proof -
  have "pem_Decode sample_libs ''not a PEM block'' = None"
    by (simp add: sample_libs_def)
  moreover have "loadPrivateKey sample_libs ''CERTIFICATE|MIIB''
      = Return (None, Some ErrUnknownPrivateKeyType)"
    by (simp add: loadPrivateKey_def sample_libs_def)
  ultimately show ?thesis
    using C9_no_block_panics [of sample_libs "''not a PEM block''"]
      C9_no_block_panics [of sample_libs "''CERTIFICATE|MIIB''"]
    by blast
qed

lemma empty_world_store:
  "client_err (store empty_world) = None"
  "read_err (store empty_world) p = None"
  "write_err (store empty_world) p = None"
  "secrets (store empty_world) p = None"
  "entropy empty_world = 0"
  "calls empty_world = []"
  by (simp_all add: empty_world_def empty_vault_def)

lemma sample_libs_keys:
  "certcrypto_GeneratePrivateKey sample_libs ''2048'' 0 = Inr ''2048''"
  "certcrypto_PEMBlock sample_libs k = Some \<lparr>Type = ''RSA PRIVATE KEY'', Bytes = k\<rparr>"
  "pem_EncodeToMemory sample_libs \<lparr>Type = ''RSA PRIVATE KEY'', Bytes = ''2048''\<rparr>
     = ''RSA PRIVATE KEY|2048''"
  "pem_Decode sample_libs ''RSA PRIVATE KEY|2048''
     = Some \<lparr>Type = ''RSA PRIVATE KEY'', Bytes = ''2048''\<rparr>"
  "x509_ParsePKCS1PrivateKey sample_libs b = (Some b, None)"
  by (simp_all add: sample_libs_def)

text \<open>
  C4.  A user with no stored key, in a store that answers the read.  When the
  generation fails, \<open>GetPrivateKey\<close> is fatal.  When a key is generated and the
  write fails, it is fatal and returns no key.  When the write succeeds, it
  returns the key, and the store holds the PEM encoding under the path of the
  user; a second call, with any key type, in the resulting state returns the
  same key and changes nothing (it does not generate), provided the PEM
  encoding decodes to the block and the block parses to the key.
\<close>

theorem C4_key_generated_once:
  assumes "client_err (store w) = None"
    and "read_err (store w) (privateKeyPath (userID s)) = None"
    and "secrets (store w) (privateKeyPath (userID s)) = None"
  shows
    "(\<forall>e. certcrypto_GeneratePrivateKey L keyType (entropy w) = Inl e
        \<longrightarrow> fst (GetPrivateKey L s w keyType) = Fatal (CouldNotGenerateKey (userID s) e))
     \<and> (\<forall>k b. certcrypto_GeneratePrivateKey L keyType (entropy w) = Inr k
               \<and> certcrypto_PEMBlock L k = Some b
        \<longrightarrow> (\<forall>e. write_err (store w) (privateKeyPath (userID s)) = Some e
               \<longrightarrow> fst (GetPrivateKey L s w keyType) = Fatal (CouldNotWriteKey (userID s) e))
          \<and> (write_err (store w) (privateKeyPath (userID s)) = None
               \<longrightarrow> (\<exists>w'. GetPrivateKey L s w keyType = (Return (Some k), w')
                        \<and> secrets (store w') (privateKeyPath (userID s))
                            = Some [(''data'', MapVal [(''data'', Str (pem_EncodeToMemory L b))])]
                        \<and> (pem_Decode L (pem_EncodeToMemory L b) = Some b
                             \<and> (Type b = ''RSA PRIVATE KEY''
                                  \<and> x509_ParsePKCS1PrivateKey L (Bytes b) = (Some k, None)
                                \<or> Type b = ''EC PRIVATE KEY''
                                  \<and> x509_ParseECPrivateKey L (Bytes b) = (Some k, None))
                            \<longrightarrow> GetPrivateKey L s w' keyType' = (Return (Some k), w')))))"
  using assms
  by (auto simp: GetPrivateKey_def Logical_Read_def Logical_Write_def loadPrivateKey_def Let_def)

theorem C4_key_generated_once_witness:
  "\<exists>w'. GetPrivateKey sample_libs sample_storage empty_world ''2048'' = (Return (Some ''2048''), w')
        \<and> secrets (store w') (privateKeyPath ''hubert@hubert.com'')
            = Some [(''data'', MapVal [(''data'', Str ''RSA PRIVATE KEY|2048'')])]
        \<and> GetPrivateKey sample_libs sample_storage w' ''2048'' = (Return (Some ''2048''), w')"
proof -
  let ?b = "\<lparr>Type = ''RSA PRIVATE KEY'', Bytes = ''2048''\<rparr>"
  have gen: "certcrypto_GeneratePrivateKey sample_libs ''2048'' (entropy empty_world) = Inr ''2048''
      \<and> certcrypto_PEMBlock sample_libs ''2048'' = Some ?b"
    by (simp add: empty_world_store sample_libs_keys)
  note T = C4_key_generated_once
      [where L = sample_libs and s = sample_storage and w = empty_world and keyType = "''2048''"
         and keyType' = "''2048''",
       OF empty_world_store(1) empty_world_store(2) empty_world_store(4),
       THEN conjunct2, rule_format, OF gen, THEN conjunct2, rule_format, OF empty_world_store(3)]
  have rt: "pem_Decode sample_libs (pem_EncodeToMemory sample_libs ?b) = Some ?b
      \<and> (Type ?b = ''RSA PRIVATE KEY''
            \<and> x509_ParsePKCS1PrivateKey sample_libs (Bytes ?b) = (Some ''2048'', None)
          \<or> Type ?b = ''EC PRIVATE KEY''
            \<and> x509_ParseECPrivateKey sample_libs (Bytes ?b) = (Some ''2048'', None))"
    by (simp add: sample_libs_keys)
  from T rt show ?thesis
    by (auto simp: sample_libs_keys sample_storage_def)
qed

section \<open>Account store: loading and saving accounts\<close>

lemma orphan_world_record:
  "client_err (store orphan_world) = None"
  "read_err (store orphan_world) (accountPath (userID sample_storage)) = None"
  "secrets (store orphan_world) (accountPath (userID sample_storage))
     = Some [(''data'', MapVal [(''data'', Str ''{email: hubert@hubert.com, status: }'')])]"
  "write_err (store orphan_world) p = None"
  by (simp_all add: orphan_world_def empty_vault_def sample_storage_def)

lemma sample_libs_simps:
  "json_UnmarshalAccount sample_libs ''{email: hubert@hubert.com, status: }''
     = Inr \<lparr>Email = ''hubert@hubert.com'', Registration = None, key = None\<rparr>"
  "lego_NewClient sample_libs c = None"
  "ResolveAccountByKey sample_libs c = Inr sample_registration"
  "json_MarshalAccount sample_libs
      \<lparr>Email = ''hubert@hubert.com'', Registration = Some sample_registration, key = k\<rparr>
     = Inr ''{email: hubert@hubert.com, status: valid}''"
  by (simp_all add: sample_libs_def sample_registration_def)

text \<open>
  C2, as amended.  A stored record of the user that decodes to an account whose
  registration is nil or has an empty status.  When the recovery fails,
  \<open>LoadAccount\<close> is fatal after one call of \<open>tryRecoverRegistration\<close> and no
  call of \<open>Save\<close>.  When the recovery yields a registration, \<open>LoadAccount\<close>
  calls \<open>tryRecoverRegistration\<close> once and then \<open>Save\<close> once, on the account
  with the key and the recovered registration attached; when that save fails
  it is fatal; when it succeeds, \<open>LoadAccount\<close> returns that account, whose
  registration is the recovered one, and the store holds its encoding.  The
  recovered registration is not tested again: the returned registration is
  usable exactly when the status the authority gave is not empty.
\<close>

theorem C2_load_recovers_registration:
  assumes "client_err (store w) = None"
    and "read_err (store w) (accountPath (userID s)) = None"
    and "secrets (store w) (accountPath (userID s)) = Some resp_Data"
    and "map_of resp_Data ''data'' = Some (MapVal d)"
    and "map_of d ''data'' = Some (Str js)"
    and "json_UnmarshalAccount L js = Inr decoded"
    and "registration_unusable (Registration decoded)"
  shows
    "(\<forall>e. lego_NewClient L (recovery_config (ctx s) privateKey) = Some e
           \<or> lego_NewClient L (recovery_config (ctx s) privateKey) = None
             \<and> ResolveAccountByKey L (recovery_config (ctx s) privateKey) = Inl e
        \<longrightarrow> LoadAccount L s w privateKey
              = (Fatal (CouldNotLoadAccount (userID s) e),
                 w\<lparr>calls := calls w @ [CallRecover privateKey]\<rparr>))
     \<and> (\<forall>reg account1.
           lego_NewClient L (recovery_config (ctx s) privateKey) = None
           \<and> ResolveAccountByKey L (recovery_config (ctx s) privateKey) = Inr reg
           \<and> account1 = decoded\<lparr>key := privateKey, Registration := Some reg\<rparr>
        \<longrightarrow> (\<forall>e. json_MarshalAccount L account1 = Inl e
                   \<or> (\<exists>jsonBytes. json_MarshalAccount L account1 = Inr jsonBytes)
                     \<and> write_err (store w) (accountPath (Email account1)) = Some e
               \<longrightarrow> fst (LoadAccount L s w privateKey)
                      = Fatal (CouldNotSaveAccount (userID s) e)
                   \<and> calls (snd (LoadAccount L s w privateKey))
                      = calls w @ [CallRecover privateKey, CallSave account1])
          \<and> (\<forall>jsonBytes. json_MarshalAccount L account1 = Inr jsonBytes
                   \<and> write_err (store w) (accountPath (Email account1)) = None
               \<longrightarrow> LoadAccount L s w privateKey
                      = (Return account1,
                         w\<lparr>calls := calls w @ [CallRecover privateKey, CallSave account1],
                           store := (store w)
                             \<lparr>secrets := (secrets (store w))
                                (accountPath (Email account1) \<mapsto>
                                   [(''data'', MapVal [(''data'', Str jsonBytes)])])\<rparr>\<rparr>)
                   \<and> Registration account1 = Some reg
                   \<and> (registration_unusable (Registration account1) \<longleftrightarrow> Status (Body reg) = [])))"
  using assms
  by (auto simp: LoadAccount_def Logical_Read_def Logical_Write_def tryRecoverRegistration_def
      Save_def Let_def registration_unusable_def)

theorem C2_load_recovers_registration_witness:
  "LoadAccount sample_libs sample_storage orphan_world (Some ''k1'')
     = (Return \<lparr>Email = ''hubert@hubert.com'', Registration = Some sample_registration,
                key = Some ''k1''\<rparr>,
        orphan_world
          \<lparr>calls := calls orphan_world @ [CallRecover (Some ''k1''),
                      CallSave \<lparr>Email = ''hubert@hubert.com'',
                                Registration = Some sample_registration, key = Some ''k1''\<rparr>],
           store := (store orphan_world)
             \<lparr>secrets := (secrets (store orphan_world))
                (accountPath ''hubert@hubert.com'' \<mapsto>
                   [(''data'', MapVal [(''data'', Str ''{email: hubert@hubert.com, status: valid}'')])])\<rparr>\<rparr>)
   \<and> LoadAccount (sample_libs\<lparr>lego_NewClient := (\<lambda>c. Some (ErrExternal ''connection refused''))\<rparr>)
        sample_storage orphan_world (Some ''k1'')
     = (Fatal (CouldNotLoadAccount ''hubert@hubert.com'' (ErrExternal ''connection refused'')),
        orphan_world\<lparr>calls := calls orphan_world @ [CallRecover (Some ''k1'')]\<rparr>)"
proof -
  let ?L = "sample_libs\<lparr>lego_NewClient := (\<lambda>c. Some (ErrExternal ''connection refused''))\<rparr>"
  let ?dec = "\<lparr>Email = ''hubert@hubert.com'', Registration = None, key = None :: string option\<rparr>"
  let ?acc = "\<lparr>Email = ''hubert@hubert.com'', Registration = Some sample_registration,
                key = Some ''k1''\<rparr>"
  have unusable: "registration_unusable (Registration ?dec)"
    by (simp add: registration_unusable_def)
  have acc: "?acc = ?dec\<lparr>key := Some ''k1'', Registration := Some sample_registration\<rparr>"
    by simp
  have dec: "json_UnmarshalAccount ?L ''{email: hubert@hubert.com, status: }'' = Inr ?dec"
    by (simp add: sample_libs_simps)
  have uid: "userID sample_storage = ''hubert@hubert.com''"
    by (simp add: sample_storage_def)
  note T = C2_load_recovers_registration
      [where L = sample_libs and s = sample_storage and w = orphan_world
         and privateKey = "Some ''k1''" and decoded = ?dec,
       OF orphan_world_record(1) orphan_world_record(2) orphan_world_record(3) _ _
          sample_libs_simps(1) unusable, THEN conjunct2, rule_format, THEN conjunct2, rule_format,
       THEN conjunct1]
  note F = C2_load_recovers_registration
      [where L = ?L and s = sample_storage and w = orphan_world
         and privateKey = "Some ''k1''" and decoded = ?dec,
       OF orphan_world_record(1) orphan_world_record(2) orphan_world_record(3) _ _
          dec unusable, THEN conjunct1, rule_format,
       where e = "ErrExternal ''connection refused''"]
  have "LoadAccount sample_libs sample_storage orphan_world (Some ''k1'')
     = (Return ?acc,
        orphan_world
          \<lparr>calls := calls orphan_world @ [CallRecover (Some ''k1''), CallSave ?acc],
           store := (store orphan_world)
             \<lparr>secrets := (secrets (store orphan_world))
                (accountPath (Email ?acc) \<mapsto>
                   [(''data'', MapVal [(''data'', Str ''{email: hubert@hubert.com, status: valid}'')])])\<rparr>\<rparr>)"
    apply (rule T)
       apply simp
      apply simp
     apply (intro conjI)
       apply (rule sample_libs_simps(2))
      apply (rule sample_libs_simps(3))
     apply (rule acc)
    apply (intro conjI)
     apply (rule sample_libs_simps(4))
    apply (rule orphan_world_record(4))
    done
  moreover have "LoadAccount ?L sample_storage orphan_world (Some ''k1'')
     = (Fatal (CouldNotLoadAccount (userID sample_storage) (ErrExternal ''connection refused'')),
        orphan_world\<lparr>calls := calls orphan_world @ [CallRecover (Some ''k1'')]\<rparr>)"
    apply (rule F)
      apply simp
     apply simp
    apply simp
    done
  ultimately show ?thesis by (simp add: uid)
qed

text \<open>
  C2, as stated, fails when the authority resolves the key to an account
  without a status: the stored registration is nil, the recovery succeeds, and
  \<open>LoadAccount\<close> returns an account whose registration has an empty status.
\<close>

lemma sample_libs_no_status_simps:
  "json_UnmarshalAccount sample_libs_no_status ''{email: hubert@hubert.com, status: }''
     = Inr \<lparr>Email = ''hubert@hubert.com'', Registration = None, key = None\<rparr>"
  "lego_NewClient sample_libs_no_status c = None"
  "ResolveAccountByKey sample_libs_no_status c = Inr sample_registration_no_status"
  "json_MarshalAccount sample_libs_no_status
      \<lparr>Email = ''hubert@hubert.com'', Registration = Some sample_registration_no_status, key = k\<rparr>
     = Inr ''{email: hubert@hubert.com, status: }''"
  by (simp_all add: sample_libs_no_status_def sample_libs_def sample_registration_no_status_def)

lemma sample_registration_no_status_unusable:
  "registration_unusable None"
  "registration_unusable (Some sample_registration_no_status)"
  by (simp_all add: registration_unusable_def sample_registration_no_status_def)

theorem C2_recovered_status_unchecked_counterexample:
  "registration_unusable None
   \<and> secrets (store orphan_world) (accountPath (userID sample_storage))
       = Some [(''data'', MapVal [(''data'', Str ''{email: hubert@hubert.com, status: }'')])]
   \<and> json_UnmarshalAccount sample_libs_no_status ''{email: hubert@hubert.com, status: }''
       = Inr \<lparr>Email = ''hubert@hubert.com'', Registration = None, key = None\<rparr>
   \<and> fst (LoadAccount sample_libs_no_status sample_storage orphan_world (Some ''k1''))
       = Return \<lparr>Email = ''hubert@hubert.com'',
                 Registration = Some sample_registration_no_status, key = Some ''k1''\<rparr>
   \<and> registration_unusable (Registration
        \<lparr>Email = ''hubert@hubert.com'', Registration = Some sample_registration_no_status,
         key = Some ''k1''\<rparr>)"
  by (simp add: LoadAccount_def Logical_Read_def Logical_Write_def tryRecoverRegistration_def
      Save_def Let_def orphan_world_record
      sample_libs_no_status_simps sample_registration_no_status_unusable)










section \<open>Challenge responder: the handler of a token\<close>





lemma sample_server_made:
  "NewProviderServer (\<lambda>a. None) ''127.0.0.1'' ''5002''
     = Return \<lparr>srv = sample_server, listener_open = True, serve_loop = Serving,
               caller = Idle, registering = [], cleanups_returned = 0, served = [],
               crashed = False\<rparr>"
  by (simp add: NewProviderServer_def mux_HandleFunc_def GetAddress_def JoinHostPort_def
      sample_server_def Let_def)



text \<open>Every step of the responder leaves the multiplexer as it was or appends to it.\<close>

lemma step_mux_grows:
  assumes "step \<sigma> \<sigma>'"
  shows "\<exists>later. mux (srv \<sigma>') = mux (srv \<sigma>) @ later"
  using assms
proof (induction rule: step.induct)
  case (call_Present \<sigma> domain token keyAuth s' g)
  then show ?case by (auto simp: Present_def split: if_splits)
next
  case (run_serve \<sigma> domain token keyAuth s')
  then show ?case
    by (auto simp: serve_def mux_HandleFunc_def Let_def split: option.splits)
next
  case (call_CleanUp \<sigma>)
  then show ?case by (auto simp: CleanUp_enter_def split: option.splits)
qed simp_all

lemma reaches_mux_grows:
  assumes "reaches \<sigma> \<sigma>'"
  shows "\<exists>later. mux (srv \<sigma>') = mux (srv \<sigma>) @ later"
  using assms
proof (induction rule: reaches.induct)
  case (reaches_refl \<sigma>)
  then show ?case by simp
next
  case (reaches_step \<sigma> \<sigma>' \<sigma>'')
  then show ?case
    using step_mux_grows [of \<sigma>' \<sigma>''] by auto
qed




section \<open>Challenge responder: the address of the listener\<close>

text \<open>
  C7.  A responder made with the empty port: \<open>NewProviderServer\<close> listens on
  the address joined from the interface and the empty port, which is not the
  address with port 80.  \<open>Present\<close> sets the port to 80 afterwards; the
  listener stays the one bound before, and only \<open>GetAddress\<close> names port 80.
\<close>

theorem C7_empty_port_not_defaulted:
  assumes "NewProviderServer net_Listen iface0 [] = Return \<sigma>"
  shows "listener (srv \<sigma>) = Some (Listener (JoinHostPort iface0 []))
       \<and> JoinHostPort iface0 [] \<noteq> JoinHostPort iface0 ''80''
       \<and> listener (fst (Present (srv \<sigma>) domain token keyAuth))
           = Some (Listener (JoinHostPort iface0 []))
       \<and> GetAddress (fst (Present (srv \<sigma>) domain token keyAuth)) = JoinHostPort iface0 ''80''"
  using assms
  by (auto simp: NewProviderServer_def GetAddress_def Present_def mux_HandleFunc_def Let_def
      JoinHostPort_def split: option.splits)

theorem C7_empty_port_not_defaulted_witness:
  "\<exists>\<sigma>. NewProviderServer (\<lambda>a. None) [] [] = Return \<sigma>
       \<and> listener (srv \<sigma>) = Some (Listener '':'')
       \<and> GetAddress (fst (Present (srv \<sigma>) ''example.com'' ''tok1'' ''key1'')) = '':80''"
proof -
  obtain \<sigma> where N: "NewProviderServer (\<lambda>a. None) [] [] = Return \<sigma>"
    by (simp add: NewProviderServer_def mux_HandleFunc_def Let_def)
  from C7_empty_port_not_defaulted [OF N, of "''example.com''" "''tok1''" "''key1''"] N
  show ?thesis by (simp add: JoinHostPort_def)
qed

section \<open>Challenge responder: clean up\<close>













end
